theory Spec2Isabelle
  imports Complex_Main
begin

section \<open>Python values\<close>

text \<open>
  A manifest is the \<open>Dict[str, Any]\<close> that the request body's JSON parses to. A value is
  \<open>None\<close>, a bool, an int, a float, a str, a list or a dict with string keys. A dict is an
  association list read with \<open>map_of\<close> (the first binding of a key is the dict's).
  A string is a list of characters, each one code point below 256.
  A float is only ever tested for zero and rendered, so it is carried as a real.
\<close>

datatype json =
    JNull
  | JBool bool
  | JInt int
  | JFloat real
  | JStr string
  | JArr "json list"
  | JObj "(string \<times> json) list"

text \<open>The exceptions the service's code can raise.\<close>

datatype error =
    AttributeError
  | TypeError
  | IntegrityError
  | HTTPException nat string

fun bindE :: "error + 'a \<Rightarrow> ('a \<Rightarrow> error + 'b) \<Rightarrow> error + 'b" where
  "bindE (Inl e) f = Inl e"
| "bindE (Inr v) f = f v"

text \<open>A \<open>for x in xs\<close> loop over a state; the first exception ends it.\<close>

fun for_each :: "('a \<Rightarrow> 's \<Rightarrow> error + 's) \<Rightarrow> 'a list \<Rightarrow> 's \<Rightarrow> error + 's" where
  "for_each body [] s = Inr s"
| "for_each body (x # xs) s = bindE (body x s) (for_each body xs)"

text \<open>Truth value testing: \<open>if v:\<close>, \<open>v or d\<close>.\<close>

fun truthy :: "json \<Rightarrow> bool" where
  "truthy JNull = False"
| "truthy (JBool b) = b"
| "truthy (JInt i) = (i \<noteq> 0)"
| "truthy (JFloat r) = (r \<noteq> 0)"
| "truthy (JStr s) = (s \<noteq> [])"
| "truthy (JArr xs) = (xs \<noteq> [])"
| "truthy (JObj kvs) = (kvs \<noteq> [])"

definition py_or :: "json \<Rightarrow> json \<Rightarrow> json" where
  "py_or a b = (if truthy a then a else b)"

text \<open>\<open>d.get(k, default)\<close> on a dict; \<open>d.get(k)\<close> is \<open>dict_get d k JNull\<close>.\<close>

definition dict_get :: "(string \<times> json) list \<Rightarrow> string \<Rightarrow> json \<Rightarrow> json" where
  "dict_get d k dflt = (case map_of d k of None \<Rightarrow> dflt | Some v \<Rightarrow> v)"

text \<open>Looking up the attribute \<open>get\<close> on a value: only a dict has it.\<close>

fun get_method :: "json \<Rightarrow> error + (string \<times> json) list" where
  "get_method (JObj d) = Inr d"
| "get_method _ = Inl AttributeError"

text \<open>\<open>len(v)\<close> and \<open>iter(v)\<close>: a str gives its characters, a dict its keys.\<close>

fun py_len :: "json \<Rightarrow> error + nat" where
  "py_len (JStr s) = Inr (length s)"
| "py_len (JArr xs) = Inr (length xs)"
| "py_len (JObj kvs) = Inr (length (remdups (map fst kvs)))"
| "py_len _ = Inl TypeError"

fun py_iter :: "json \<Rightarrow> error + json list" where
  "py_iter (JStr s) = Inr (map (\<lambda>c. JStr [c]) s)"
| "py_iter (JArr xs) = Inr xs"
| "py_iter (JObj kvs) = Inr (map JStr (remdups (map fst kvs)))"
| "py_iter _ = Inl TypeError"

subsection \<open>Strings\<close>

text \<open>\<open>str.isspace\<close> on the code points below 256.\<close>

definition is_space :: "char \<Rightarrow> bool" where
  "is_space c = (let n = (of_char c :: nat) in
     (9 \<le> n \<and> n \<le> 13) \<or> (28 \<le> n \<and> n \<le> 32) \<or> n = 133 \<or> n = 160)"

definition strip :: "string \<Rightarrow> string" where
  "strip s = rev (dropWhile is_space (rev (dropWhile is_space s)))"

definition lower_char :: "char \<Rightarrow> char" where
  "lower_char c = (let n = (of_char c :: nat) in
     if (65 \<le> n \<and> n \<le> 90) \<or> (192 \<le> n \<and> n \<le> 222 \<and> n \<noteq> 215)
     then char_of (n + 32) else c)"

definition lower :: "string \<Rightarrow> string" where
  "lower s = map lower_char s"

text \<open>\<open>v.strip()\<close> and \<open>v.lower()\<close> on a value: only a str has the method.\<close>

fun py_strip :: "json \<Rightarrow> error + string" where
  "py_strip (JStr s) = Inr (strip s)"
| "py_strip _ = Inl AttributeError"

fun py_lower :: "json \<Rightarrow> error + string" where
  "py_lower (JStr s) = Inr (lower s)"
| "py_lower _ = Inl AttributeError"

text \<open>\<open>sep.join(parts)\<close>.\<close>

fun join :: "string \<Rightarrow> string list \<Rightarrow> string" where
  "join sep [] = []"
| "join sep [p] = p"
| "join sep (p # q # ps) = p @ sep @ join sep (q # ps)"

text \<open>
  A replacement field \<open>{v}\<close> of an f-string: a str is inserted as it is, any other value
  through \<open>str(v)\<close>. The rendering of values that are not strings is the parameter
  \<open>py_str\<close> of the mapper.
\<close>

fun format_value :: "(json \<Rightarrow> string) \<Rightarrow> json \<Rightarrow> string" where
  "format_value py_str (JStr s) = s"
| "format_value py_str v = py_str v"

section \<open>The manifest mapper (rdmc\_mapping.py)\<close>

record contributor_row =
  position :: nat
  first_name :: string
  last_name :: string
  email :: json
  affiliation :: json
  orcid :: json
  role :: json

text \<open>The body of the loop over \<open>enumerate(contributors)\<close>.\<close>

fun contributor_step ::
  "(json \<Rightarrow> string) \<Rightarrow> nat \<times> json \<Rightarrow> contributor_row list \<times> string list
    \<Rightarrow> error + (contributor_row list \<times> string list)" where
  "contributor_step py_str (pos, c) (contributor_rows, contrib_parts) =
     bindE (get_method c) (\<lambda>c.
     bindE (py_strip (py_or (dict_get c ''first_name'' JNull) (JStr ''''))) (\<lambda>first.
     bindE (py_strip (py_or (dict_get c ''last_name'' JNull) (JStr ''''))) (\<lambda>last.
       let email = dict_get c ''email'' JNull;
           affiliation = dict_get c ''affiliation'' JNull;
           orcid = dict_get c ''orcid'' JNull;
           role = dict_get c ''role'' JNull;
           row = \<lparr>position = pos, first_name = first, last_name = last, email = email,
                  affiliation = affiliation, orcid = orcid, role = role\<rparr>;
           piece = strip (first @ '' '' @ last);
           piece = (if truthy role
                    then piece @ '' ('' @ format_value py_str role @ '')'' else piece);
           piece = (if truthy orcid
                    then piece @ '', ORCID: '' @ format_value py_str orcid else piece);
           piece = (if truthy affiliation
                    then piece @ '', '' @ format_value py_str affiliation else piece)
       in Inr (contributor_rows @ [row],
               if piece \<noteq> [] then contrib_parts @ [piece] else contrib_parts))))"

text \<open>The six flags the loop over the artifacts accumulates.\<close>

record artifact_flags =
  has_public :: bool
  has_restricted :: bool
  has_private :: bool
  has_data :: bool
  has_software :: bool
  has_links' :: bool

text \<open>The body of the loops over an artifact's files and over its folders.\<close>

definition resource_step :: "json \<Rightarrow> artifact_flags \<Rightarrow> error + artifact_flags" where
  "resource_step file fl =
     bindE (get_method file) (\<lambda>file.
     bindE (py_lower (py_or (dict_get file ''resource type'' JNull) (JStr ''''))) (\<lambda>rtype.
       Inr (if rtype = ''data'' then fl\<lparr>has_data := True\<rparr>
            else if rtype = ''software'' then fl\<lparr>has_software := True\<rparr>
            else fl)))"

text \<open>The lower-cased access level of an artifact entry.\<close>

definition access_level :: "json \<Rightarrow> error + string" where
  "access_level art =
     bindE (get_method art) (\<lambda>art.
       py_lower (py_or (dict_get art ''access_level'' JNull) (JStr '''')))"

text \<open>The body of the loop over \<open>artifacts_details\<close>.\<close>

definition artifact_step :: "json \<Rightarrow> artifact_flags \<Rightarrow> error + artifact_flags" where
  "artifact_step art fl =
     bindE (access_level art) (\<lambda>access_level.
     bindE (get_method art) (\<lambda>art.
       let fl = (if access_level = ''public'' then fl\<lparr>has_public := True\<rparr>
                 else if access_level = ''restricted'' then fl\<lparr>has_restricted := True\<rparr>
                 else if access_level = ''private'' then fl\<lparr>has_private := True\<rparr>
                 else fl)
       in
       bindE (py_iter (py_or (dict_get art ''files'' (JArr [])) (JArr []))) (\<lambda>files.
       bindE (for_each resource_step files fl) (\<lambda>fl.
       bindE (py_iter (py_or (dict_get art ''folders'' (JArr [])) (JArr []))) (\<lambda>folders.
       bindE (for_each resource_step folders fl) (\<lambda>fl.
         if truthy (dict_get art ''links'' JNull)
         then bindE (py_len (dict_get art ''links'' JNull)) (\<lambda>n.
                Inr (if n > 0 then fl\<lparr>has_links' := True\<rparr> else fl))
         else Inr fl))))))"

record rdmc_fields =
  title :: json
  rdmc_version :: json
  manifest_schema_version :: json
  manifest_file_path :: json
  description :: json
  subject :: json
  license :: json
  keywords_raw :: json
  container_concept :: json
  contributors_count :: nat
  contributors_text :: "string option"
  artifacts_raw :: json
  artifact_count :: nat
  has_public_artifacts :: bool
  has_restricted_artifacts :: bool
  has_private_artifacts :: bool
  has_data_resources :: bool
  has_software_resources :: bool
  has_links :: bool

definition derive_fields_from_manifest ::
  "(json \<Rightarrow> string) \<Rightarrow> (string \<times> json) list
    \<Rightarrow> error + (rdmc_fields \<times> contributor_row list)" where
  "derive_fields_from_manifest py_str manifest =
     (let title = py_or (dict_get manifest ''RDMC Title'' JNull)
                        (dict_get manifest ''title'' JNull);
          rdmc_version = dict_get manifest ''RDMC Version'' JNull;
          manifest_schema_version = dict_get manifest ''Manifest-Schemaversion'' JNull;
          manifest_file_path = dict_get manifest ''Manifest File Path'' JNull;
          rdmc_metadata = py_or (dict_get manifest ''RDMC Metadata'' (JObj [])) (JObj [])
      in
      bindE (get_method rdmc_metadata) (\<lambda>rdmc_metadata.
        let description = dict_get rdmc_metadata ''Description'' JNull;
            subject = dict_get rdmc_metadata ''Subject'' JNull;
            license = dict_get rdmc_metadata ''License'' JNull;
            keywords_raw = dict_get rdmc_metadata ''Keywords'' JNull;
            container_concept = dict_get rdmc_metadata ''container-concept'' JNull;
            contributors = py_or (dict_get rdmc_metadata ''Contributors'' (JArr [])) (JArr [])
        in
        bindE (py_len contributors) (\<lambda>contributors_count.
        bindE (py_iter contributors) (\<lambda>entries.
        bindE (for_each (contributor_step py_str) (enumerate 0 entries) ([], []))
          (\<lambda>(contributor_rows, contrib_parts).
        let contributors_text =
              (if contrib_parts \<noteq> [] then Some (join ''; '' contrib_parts) else None);
            artifacts_raw = dict_get manifest ''Artifacts'' JNull;
            artifacts_details =
              py_or (dict_get manifest ''Artifacts Details'' (JArr [])) (JArr [])
        in
        bindE (py_len artifacts_details) (\<lambda>artifact_count.
        bindE (py_iter artifacts_details) (\<lambda>arts.
        bindE (for_each artifact_step arts
                 \<lparr>has_public = False, has_restricted = False, has_private = False,
                  has_data = False, has_software = False, has_links' = False\<rparr>) (\<lambda>fl.
          Inr (\<lparr>title = py_or title (JStr ''(no title)''),
                rdmc_version = rdmc_version,
                manifest_schema_version = manifest_schema_version,
                manifest_file_path = manifest_file_path,
                description = description,
                subject = subject,
                license = license,
                keywords_raw = keywords_raw,
                container_concept = container_concept,
                contributors_count = contributors_count,
                contributors_text = contributors_text,
                artifacts_raw = artifacts_raw,
                artifact_count = artifact_count,
                has_public_artifacts = has_public fl,
                has_restricted_artifacts = has_restricted fl,
                has_private_artifacts = has_private fl,
                has_data_resources = has_data fl,
                has_software_resources = has_software fl,
                has_links = has_links' fl\<rparr>,
               contributor_rows)))))))))"

subsection \<open>The mapper's contract, in the specification's words\<close>

text \<open>
  The array at a key, empty when the key is missing or holds anything but an array, and
  the object at a key, empty likewise.
\<close>

definition as_array :: "json \<Rightarrow> json list" where
  "as_array v = (case v of JArr xs \<Rightarrow> xs | _ \<Rightarrow> [])"

definition as_object :: "json \<Rightarrow> (string \<times> json) list" where
  "as_object v = (case v of JObj d \<Rightarrow> d | _ \<Rightarrow> [])"

definition contributor_entries :: "(string \<times> json) list \<Rightarrow> json list" where
  "contributor_entries manifest =
     as_array (dict_get (as_object (dict_get manifest ''RDMC Metadata'' JNull))
                 ''Contributors'' JNull)"

definition artifact_entries :: "(string \<times> json) list \<Rightarrow> json list" where
  "artifact_entries manifest = as_array (dict_get manifest ''Artifacts Details'' JNull)"

text \<open>A name of a contributor entry: stripped, and the empty string when it is absent.\<close>

definition name_field :: "json \<Rightarrow> string \<Rightarrow> string" where
  "name_field c k = (case dict_get (as_object c) k JNull of JStr s \<Rightarrow> strip s | _ \<Rightarrow> [])"

definition expected_row :: "nat \<Rightarrow> json \<Rightarrow> contributor_row" where
  "expected_row i c =
     \<lparr>position = i,
      first_name = name_field c ''first_name'',
      last_name = name_field c ''last_name'',
      email = dict_get (as_object c) ''email'' JNull,
      affiliation = dict_get (as_object c) ''affiliation'' JNull,
      orcid = dict_get (as_object c) ''orcid'' JNull,
      role = dict_get (as_object c) ''role'' JNull\<rparr>"

text \<open>
  The display fragment of a contributor entry: the two names with a space between them,
  trimmed, then the role, the ORCID and the affiliation, each when it is present. A value
  is present when Python takes it as true: it is neither missing nor null nor empty.
\<close>

definition display_fragment :: "(json \<Rightarrow> string) \<Rightarrow> json \<Rightarrow> string" where
  "display_fragment py_str c =
     (let role = dict_get (as_object c) ''role'' JNull;
          orcid = dict_get (as_object c) ''orcid'' JNull;
          affiliation = dict_get (as_object c) ''affiliation'' JNull
      in strip (name_field c ''first_name'' @ '' '' @ name_field c ''last_name'')
         @ (if truthy role then '' ('' @ format_value py_str role @ '')'' else [])
         @ (if truthy orcid then '', ORCID: '' @ format_value py_str orcid else [])
         @ (if truthy affiliation then '', '' @ format_value py_str affiliation else []))"

text \<open>The title: the first of the two keys that holds a value Python takes as true.\<close>

definition expected_title :: "(string \<times> json) list \<Rightarrow> json" where
  "expected_title manifest =
     (if truthy (dict_get manifest ''RDMC Title'' JNull)
      then dict_get manifest ''RDMC Title'' JNull
      else if truthy (dict_get manifest ''title'' JNull)
      then dict_get manifest ''title'' JNull
      else JStr ''(no title)'')"

text \<open>
  A section that is missing or empty: the key is not there, or it holds null, an empty
  string, an empty array or an empty object.
\<close>

definition missing_or_empty :: "(string \<times> json) list \<Rightarrow> string \<Rightarrow> bool" where
  "missing_or_empty d k =
     (case map_of d k of
        None \<Rightarrow> True
      | Some v \<Rightarrow> v = JNull \<or> v = JStr [] \<or> v = JArr [] \<or> v = JObj [])"

definition is_obj :: "json \<Rightarrow> bool" where
  "is_obj v = (case v of JObj _ \<Rightarrow> True | _ \<Rightarrow> False)"

definition is_str :: "json \<Rightarrow> bool" where
  "is_str v = (case v of JStr _ \<Rightarrow> True | _ \<Rightarrow> False)"

definition is_sized :: "json \<Rightarrow> bool" where
  "is_sized v = (case v of JStr _ \<Rightarrow> True | JArr _ \<Rightarrow> True | JObj _ \<Rightarrow> True | _ \<Rightarrow> False)"

text \<open>
  A structurally present document: every optional part is either missing or empty, or has
  the shape the producers give it (the metadata an object, the contributors and the
  artifacts arrays of objects, names, access levels and resource types strings, files and
  folders arrays of objects, links a container).
\<close>

definition text_field_ok :: "(string \<times> json) list \<Rightarrow> string \<Rightarrow> bool" where
  "text_field_ok d k = (missing_or_empty d k \<or> is_str (dict_get d k JNull))"

definition contributor_ok :: "json \<Rightarrow> bool" where
  "contributor_ok c =
     (case c of
        JObj d \<Rightarrow> text_field_ok d ''first_name'' \<and> text_field_ok d ''last_name''
      | _ \<Rightarrow> False)"

definition resource_ok :: "json \<Rightarrow> bool" where
  "resource_ok r = (case r of JObj d \<Rightarrow> text_field_ok d ''resource type'' | _ \<Rightarrow> False)"

definition resources_ok :: "(string \<times> json) list \<Rightarrow> string \<Rightarrow> bool" where
  "resources_ok d k =
     (missing_or_empty d k \<or>
      (case dict_get d k JNull of JArr rs \<Rightarrow> list_all resource_ok rs | _ \<Rightarrow> False))"

definition artifact_ok :: "json \<Rightarrow> bool" where
  "artifact_ok a =
     (case a of
        JObj d \<Rightarrow>
          text_field_ok d ''access_level'' \<and> resources_ok d ''files'' \<and>
          resources_ok d ''folders'' \<and>
          (missing_or_empty d ''links'' \<or> is_sized (dict_get d ''links'' JNull))
      | _ \<Rightarrow> False)"

definition metadata_ok :: "json \<Rightarrow> bool" where
  "metadata_ok v =
     (case v of
        JObj md \<Rightarrow>
          missing_or_empty md ''Contributors'' \<or>
          (case dict_get md ''Contributors'' JNull of
             JArr cs \<Rightarrow> list_all contributor_ok cs
           | _ \<Rightarrow> False)
      | _ \<Rightarrow> False)"

definition structurally_present :: "(string \<times> json) list \<Rightarrow> bool" where
  "structurally_present manifest =
     ((missing_or_empty manifest ''RDMC Metadata'' \<or>
       metadata_ok (dict_get manifest ''RDMC Metadata'' JNull)) \<and>
      (missing_or_empty manifest ''Artifacts Details'' \<or>
       (case dict_get manifest ''Artifacts Details'' JNull of
          JArr arts \<Rightarrow> list_all artifact_ok arts
        | _ \<Rightarrow> False)))"

section \<open>The tables (models.py)\<close>

text \<open>
  A row of \<open>rdmc\<close> carries the mapped fields and the columns of its own that the service
  writes. The columns \<open>pid_minted_at\<close>, \<open>search_vector\<close>, \<open>manifest_hash\<close> and
  \<open>is_latest\<close> are never written by the service and are left out. A timestamp is a
  reading of the database clock, a natural number.
\<close>

record Rdmc = rdmc_fields +
  rid :: nat
  external_id :: string
  external_id_scheme :: "string option"
  pid :: "string option"
  pid_scheme :: "string option"
  pid_status :: string
  manifest :: "(string \<times> json) list"
  created_at :: nat
  updated_at :: nat

record RdmcContributor = contributor_row +
  cid :: nat
  rdmc_id :: nat
  contributor_created_at :: nat

text \<open>
  The database: the two tables, rows in insertion order, and the two sequences behind
  the autoincrement keys.
\<close>

record database =
  rdmc_table :: "Rdmc list"
  rdmc_contributor_table :: "RdmcContributor list"
  rdmc_id_seq :: nat
  rdmc_contributor_id_seq :: nat

definition empty_database :: database where
  "empty_database =
     \<lparr>rdmc_table = [], rdmc_contributor_table = [], rdmc_id_seq = 0,
      rdmc_contributor_id_seq = 0\<rparr>"

text \<open>
  What the schema keeps true of every state: primary keys are unique and were drawn from
  their sequences, and a contributor row refers to an existing parent (the foreign key).
\<close>

definition schema_ok :: "database \<Rightarrow> bool" where
  "schema_ok db =
     (distinct (map rid (rdmc_table db)) \<and>
      list_all (\<lambda>r. rid r \<le> rdmc_id_seq db) (rdmc_table db) \<and>
      list_all (\<lambda>c. list_ex (\<lambda>r. rid r = rdmc_id c) (rdmc_table db))
        (rdmc_contributor_table db))"

section \<open>The request payload (schemas.py)\<close>

record RdmcIn =
  in_external_id :: string
  in_external_id_scheme :: "string option"
  in_pid :: "string option"
  in_pid_scheme :: "string option"
  in_manifest :: "(string \<times> json) list"

section \<open>The endpoints (api.py)\<close>

text \<open>\<open>a or b\<close> and \<open>if a:\<close> on an optional string.\<close>

definition given :: "string option \<Rightarrow> bool" where
  "given a = (case a of None \<Rightarrow> False | Some s \<Rightarrow> s \<noteq> [])"

definition opt_or :: "string option \<Rightarrow> string option \<Rightarrow> string option" where
  "opt_or a b = (if given a then a else b)"

text \<open>
  \<open>Rdmc(external_id=...)\<close>: a fresh object. Its key and its timestamps are assigned by
  the database at the insert; \<open>pid_status\<close> takes the column default \<open>pending\<close> there
  unless the handler has set it. Every mapped field is assigned by the handler before the
  flush, so the values given to them here are never read.
\<close>

definition new_Rdmc :: "string \<Rightarrow> Rdmc" where
  "new_Rdmc ext_id =
     \<lparr>title = JNull, rdmc_version = JNull, manifest_schema_version = JNull,
      manifest_file_path = JNull, description = JNull, subject = JNull, license = JNull,
      keywords_raw = JNull, container_concept = JNull, contributors_count = 0,
      contributors_text = None, artifacts_raw = JNull, artifact_count = 0,
      has_public_artifacts = False, has_restricted_artifacts = False,
      has_private_artifacts = False, has_data_resources = False,
      has_software_resources = False, has_links = False,
      rid = 0, external_id = ext_id, external_id_scheme = None, pid = None,
      pid_scheme = None, pid_status = ''pending'', manifest = [],
      created_at = 0, updated_at = 0\<rparr>"

text \<open>The unique constraint on \<open>pid\<close>: another row holds the same value, not null.\<close>

definition pid_taken :: "database \<Rightarrow> nat \<Rightarrow> string option \<Rightarrow> bool" where
  "pid_taken db i p = (p \<noteq> None \<and> list_ex (\<lambda>r. rid r \<noteq> i \<and> pid r = p) (rdmc_table db))"

text \<open>
  \<open>db.flush()\<close> for the parent object. A new object is inserted: the key comes from the
  sequence and both timestamps from the clock. A loaded object is updated only when some
  attribute differs from what was loaded: the unit of work then issues an UPDATE, which
  also sets \<open>updated_at\<close> (\<open>onupdate\<close>); with no attribute changed it issues nothing.
\<close>

definition flush_rdmc ::
  "nat \<Rightarrow> Rdmc option \<Rightarrow> Rdmc \<Rightarrow> database \<Rightarrow> error + (database \<times> Rdmc)" where
  "flush_rdmc now existing rdmc db =
     (case existing of
        None \<Rightarrow>
          (let i = Suc (rdmc_id_seq db) in
           if pid_taken db i (pid rdmc) then Inl IntegrityError
           else (let row = rdmc\<lparr>rid := i, created_at := now, updated_at := now\<rparr>
                 in Inr (db\<lparr>rdmc_table := rdmc_table db @ [row], rdmc_id_seq := i\<rparr>, row)))
      | Some loaded \<Rightarrow>
          if rdmc = loaded then Inr (db, rdmc)
          else if pid_taken db (rid rdmc) (pid rdmc) then Inl IntegrityError
          else (let row = rdmc\<lparr>updated_at := now\<rparr>
                in Inr (db\<lparr>rdmc_table :=
                            map (\<lambda>r. if rid r = rid row then row else r) (rdmc_table db)\<rparr>,
                        row)))"

text \<open>\<open>db.add(RdmcContributor(...))\<close>, inserted at the commit.\<close>

definition add_contributor :: "nat \<Rightarrow> nat \<Rightarrow> contributor_row \<Rightarrow> database \<Rightarrow> database" where
  "add_contributor now parent c db =
     (let i = Suc (rdmc_contributor_id_seq db);
          contrib = \<lparr>position = position c, first_name = first_name c,
                     last_name = last_name c, email = email c,
                     affiliation = affiliation c, orcid = orcid c, role = role c,
                     cid = i, rdmc_id = parent, contributor_created_at = now\<rparr>
      in db\<lparr>rdmc_contributor_table := rdmc_contributor_table db @ [contrib],
            rdmc_contributor_id_seq := i\<rparr>)"

text \<open>
  \<open>POST /rdmcs\<close>. An exception leaves the handler before the commit, and the session is
  closed without one: the result \<open>Inl\<close> stands for the database as it was.
\<close>

definition ingest_rdmc ::
  "(json \<Rightarrow> string) \<Rightarrow> nat \<Rightarrow> RdmcIn \<Rightarrow> database \<Rightarrow> error + (database \<times> Rdmc)" where
  "ingest_rdmc py_str now payload db =
     (let existing = find (\<lambda>r. external_id r = in_external_id payload) (rdmc_table db) in
      bindE (derive_fields_from_manifest py_str (in_manifest payload))
        (\<lambda>(rdmc_fields, contributor_rows).
      let rdmc = (case existing of Some r \<Rightarrow> r | None \<Rightarrow> new_Rdmc (in_external_id payload));
          rdmc = rdmc\<lparr>external_id_scheme := in_external_id_scheme payload\<rparr>;
          rdmc = rdmc\<lparr>pid := opt_or (in_pid payload) (pid rdmc)\<rparr>;
          rdmc = rdmc\<lparr>pid_scheme := opt_or (in_pid_scheme payload) (pid_scheme rdmc)\<rparr>;
          rdmc = (if given (in_pid payload) then rdmc\<lparr>pid_status := ''minted''\<rparr> else rdmc);
          rdmc = rdmc\<lparr>rdmc_version := rdmc_version rdmc_fields,
                      manifest_schema_version := manifest_schema_version rdmc_fields,
                      manifest_file_path := manifest_file_path rdmc_fields,
                      title := title rdmc_fields,
                      description := description rdmc_fields,
                      subject := subject rdmc_fields,
                      license := license rdmc_fields,
                      keywords_raw := keywords_raw rdmc_fields,
                      container_concept := container_concept rdmc_fields,
                      contributors_count := contributors_count rdmc_fields,
                      contributors_text := contributors_text rdmc_fields,
                      artifacts_raw := artifacts_raw rdmc_fields,
                      artifact_count := artifact_count rdmc_fields,
                      has_public_artifacts := has_public_artifacts rdmc_fields,
                      has_restricted_artifacts := has_restricted_artifacts rdmc_fields,
                      has_private_artifacts := has_private_artifacts rdmc_fields,
                      has_data_resources := has_data_resources rdmc_fields,
                      has_software_resources := has_software_resources rdmc_fields,
                      has_links := has_links rdmc_fields,
                      manifest := in_manifest payload\<rparr>
      in
      bindE (flush_rdmc now existing rdmc db) (\<lambda>(db, rdmc).
        let db = db\<lparr>rdmc_contributor_table :=
                      filter (\<lambda>c. rdmc_id c \<noteq> rid rdmc) (rdmc_contributor_table db)\<rparr>;
            db = fold (add_contributor now (rid rdmc)) contributor_rows db
        in Inr (db, rdmc))))"

text \<open>\<open>ORDER BY created_at DESC\<close>.\<close>

definition order_by_created_at_desc :: "Rdmc list \<Rightarrow> Rdmc list" where
  "order_by_created_at_desc rows = sort_key (\<lambda>r. - int (created_at r)) rows"

text \<open>\<open>if q: stmt = stmt.where(column == q)\<close> for an optional query parameter.\<close>

definition where_eq :: "string option \<Rightarrow> ('a \<Rightarrow> json) \<Rightarrow> 'a list \<Rightarrow> 'a list" where
  "where_eq q column rows =
     (case q of
        None \<Rightarrow> rows
      | Some s \<Rightarrow> if s \<noteq> [] then filter (\<lambda>x. column x = JStr s) rows else rows)"

text \<open>\<open>GET /rdmcs\<close>.\<close>

definition list_rdmcs ::
  "string option \<Rightarrow> string option \<Rightarrow> string option \<Rightarrow> database \<Rightarrow> Rdmc list" where
  "list_rdmcs subject_q license_q container_concept_q db =
     (let rows = rdmc_table db;
          rows = where_eq subject_q subject rows;
          rows = where_eq license_q license rows;
          rows = where_eq container_concept_q container_concept rows
      in order_by_created_at_desc rows)"

text \<open>\<open>GET /rdmcs/{external_id}\<close>.\<close>

definition get_rdmc :: "string \<Rightarrow> database \<Rightarrow> error + Rdmc" where
  "get_rdmc ext_id db =
     (case find (\<lambda>r. external_id r = ext_id) (rdmc_table db) of
        None \<Rightarrow> Inl (HTTPException 404 ''RDMC not found'')
      | Some rdmc \<Rightarrow> Inr rdmc)"

text \<open>The handler declared for \<open>GET /rdmcs/by-contributor\<close>.\<close>

definition rdmcs_by_contributor ::
  "string option \<Rightarrow> string option \<Rightarrow> database \<Rightarrow> error + Rdmc list" where
  "rdmcs_by_contributor orcid_q email_q db =
     (if \<not> given orcid_q \<and> \<not> given email_q
      then Inl (HTTPException 400 ''Provide at least one of: orcid, email'')
      else
        (let joined = [(r, c). r \<leftarrow> rdmc_table db, c \<leftarrow> rdmc_contributor_table db,
                               rdmc_id c = rid r];
             joined = where_eq orcid_q (\<lambda>(r, c). orcid c) joined;
             joined = where_eq email_q (\<lambda>(r, c). email c) joined
         in Inr (order_by_created_at_desc (remdups (map fst joined)))))"

subsection \<open>Routing\<close>

text \<open>
  The router tries the routes in the order in which the decorators registered them and
  takes the first whose path and method match; a path parameter \<open>{name}\<close> matches one
  segment that is not empty. When only paths matched, the answer is 405, and 404 when
  nothing matched.
\<close>

datatype http_method = GET | POST | PUT | DELETE

datatype endpoint = Health_check | Ingest_rdmc | List_rdmcs | Get_rdmc | Rdmcs_by_contributor

datatype segment = Lit string | Param string

datatype route_match = Full endpoint "(string \<times> string) list" | Partial | No_match

datatype response =
    Status_ok
  | Detail Rdmc
  | Summaries "Rdmc list"
  | Error_response nat string

record request =
  req_method :: http_method
  req_path :: string
  req_query :: "(string \<times> string) list"
  req_body :: "RdmcIn option"

fun split_on :: "char \<Rightarrow> string \<Rightarrow> string list" where
  "split_on sep [] = [[]]"
| "split_on sep (x # xs) =
     (if x = sep then [] # split_on sep xs
      else (case split_on sep xs of
              [] \<Rightarrow> [[x]]
            | y # ys \<Rightarrow> (x # y) # ys))"

definition compile_segment :: "string \<Rightarrow> segment" where
  "compile_segment s =
     (if 2 \<le> length s \<and> hd s = CHR ''{'' \<and> last s = CHR ''}''
      then Param (butlast (tl s)) else Lit s)"

definition compile_path :: "string \<Rightarrow> segment list" where
  "compile_path p = map compile_segment (split_on CHR ''/'' p)"

fun match_segments :: "segment list \<Rightarrow> string list \<Rightarrow> (string \<times> string) list option" where
  "match_segments [] [] = Some []"
| "match_segments (Lit s # ts) (p # ps) = (if s = p then match_segments ts ps else None)"
| "match_segments (Param n # ts) (p # ps) =
     (if p \<noteq> [] then map_option ((#) (n, p)) (match_segments ts ps) else None)"
| "match_segments _ _ = None"

definition routes :: "(http_method \<times> string \<times> endpoint) list" where
  "routes =
     [(GET, ''/'', Health_check),
      (POST, ''/rdmcs'', Ingest_rdmc),
      (GET, ''/rdmcs'', List_rdmcs),
      (GET, ''/rdmcs/{external_id}'', Get_rdmc),
      (GET, ''/rdmcs/by-contributor'', Rdmcs_by_contributor)]"

fun resolve :: "(http_method \<times> string \<times> endpoint) list \<Rightarrow> http_method \<Rightarrow> string \<Rightarrow> route_match" where
  "resolve [] m p = No_match"
| "resolve ((m', template, e) # rs) m p =
     (case match_segments (compile_path template) (split_on CHR ''/'' p) of
        None \<Rightarrow> resolve rs m p
      | Some params \<Rightarrow>
          if m' = m then Full e params
          else (case resolve rs m p of No_match \<Rightarrow> Partial | r \<Rightarrow> r))"

fun error_response :: "error \<Rightarrow> response" where
  "error_response (HTTPException code detail) = Error_response code detail"
| "error_response _ = Error_response 500 ''Internal Server Error''"

definition handle_request ::
  "(json \<Rightarrow> string) \<Rightarrow> nat \<Rightarrow> request \<Rightarrow> database \<Rightarrow> response \<times> database" where
  "handle_request py_str now req db =
     (case resolve routes (req_method req) (req_path req) of
        No_match \<Rightarrow> (Error_response 404 ''Not Found'', db)
      | Partial \<Rightarrow> (Error_response 405 ''Method Not Allowed'', db)
      | Full e params \<Rightarrow>
          (case e of
             Health_check \<Rightarrow> (Status_ok, db)
           | Ingest_rdmc \<Rightarrow>
               (case req_body req of
                  None \<Rightarrow> (Error_response 422 ''Unprocessable Entity'', db)
                | Some payload \<Rightarrow>
                    (case ingest_rdmc py_str now payload db of
                       Inl err \<Rightarrow> (error_response err, db)
                     | Inr (db', rdmc) \<Rightarrow> (Detail rdmc, db')))
           | List_rdmcs \<Rightarrow>
               (Summaries (list_rdmcs (map_of (req_query req) ''subject'')
                             (map_of (req_query req) ''license_'')
                             (map_of (req_query req) ''container_concept'') db), db)
           | Get_rdmc \<Rightarrow>
               (case map_of params ''external_id'' of
                  None \<Rightarrow> (Error_response 500 ''Internal Server Error'', db)
                | Some ext_id \<Rightarrow>
                    (case get_rdmc ext_id db of
                       Inl err \<Rightarrow> (error_response err, db)
                     | Inr rdmc \<Rightarrow> (Detail rdmc, db)))
           | Rdmcs_by_contributor \<Rightarrow>
               (case rdmcs_by_contributor (map_of (req_query req) ''orcid'')
                       (map_of (req_query req) ''email'') db of
                  Inl err \<Rightarrow> (error_response err, db)
                | Inr rows \<Rightarrow> (Summaries rows, db))))"

section \<open>Example documents\<close>

definition no_str :: "json \<Rightarrow> string" where
  "no_str v = []"

definition ada :: json where
  "ada = JObj [(''first_name'', JStr ''Ada''), (''last_name'', JStr ''Lovelace''),
               (''role'', JStr ''PI''), (''orcid'', JStr ''0000-0001''),
               (''affiliation'', JStr ''Dept X'')]"

definition bob :: json where
  "bob = JObj [(''first_name'', JStr '' Bob ''), (''email'', JStr ''bob@example.org'')]"

definition two_contributors :: "(string \<times> json) list" where
  "two_contributors =
     [(''RDMC Metadata'', JObj [(''Contributors'', JArr [ada, JObj [], bob])])]"

definition public_and_private :: "(string \<times> json) list" where
  "public_and_private =
     [(''Artifacts Details'',
       JArr [JObj [(''access_level'', JStr ''Public'')],
             JObj [(''access_level'', JStr ''private'')]])]"

section \<open>Properties\<close>

subsection \<open>Exceptions and loops\<close>

lemma bindE_Inr_iff: "bindE m f = Inr y \<longleftrightarrow> (\<exists>x. m = Inr x \<and> f x = Inr y)"
  by (cases m) auto

lemma get_method_Inr_iff: "get_method v = Inr d \<longleftrightarrow> v = JObj d"
  by (cases v) auto

lemma py_or_default:
  "py_or (dict_get m k (JArr [])) d' = py_or (dict_get m k JNull) d'"
  "py_or (dict_get m k (JObj [])) d' = py_or (dict_get m k JNull) d'"
  by (simp_all add: py_or_def dict_get_def split: option.splits)

lemma strs_not_objs: "list_all is_obj (map JStr xs) \<longleftrightarrow> xs = []"
  by (cases xs) (simp_all add: is_obj_def)

text \<open>
  A loop over \<open>d.get(k, []) or []\<close> whose body only accepts objects ran over the array at
  \<open>k\<close>: a string or an object there would have handed the body a string.
\<close>

lemma loop_entries:
  assumes len: "py_len (py_or (dict_get d k (JArr [])) (JArr [])) = Inr n"
    and iter: "py_iter (py_or (dict_get d k (JArr [])) (JArr [])) = Inr es"
    and objs: "list_all is_obj es"
  shows "es = as_array (dict_get d k JNull)" and "n = length es"
proof -
  let ?v = "dict_get d k JNull"
  from len have len': "py_len (py_or ?v (JArr [])) = Inr n" by (simp add: py_or_default)
  from iter have iter': "py_iter (py_or ?v (JArr [])) = Inr es" by (simp add: py_or_default)
  show "es = as_array ?v"
  proof (cases ?v)
    case (JStr s)
    with iter' objs show ?thesis
      by (cases s) (auto simp: py_or_def as_array_def is_obj_def)
  next
    case (JObj kvs)
    with iter' objs show ?thesis
      by (cases "kvs = []")
        (auto simp: py_or_def as_array_def strs_not_objs simp del: remdups.simps)
  qed (use iter' in \<open>auto simp: py_or_def as_array_def split: if_splits\<close>)
  with len' iter' show "n = length es"
    by (cases ?v) (auto simp: py_or_def as_array_def split: if_splits)
qed

lemma metadata_object:
  assumes "get_method (py_or (dict_get m k (JObj [])) (JObj [])) = Inr md"
  shows "md = as_object (dict_get m k JNull)"
proof -
  from assms have "py_or (dict_get m k JNull) (JObj []) = JObj md"
    by (simp add: py_or_default get_method_Inr_iff)
  then show ?thesis
    by (cases "dict_get m k JNull") (auto simp: py_or_def as_object_def split: if_splits)
qed

subsection \<open>The loop over the contributors\<close>

lemma py_strip_or_Inr:
  assumes "py_strip (py_or v (JStr [])) = Inr s"
  shows "s = (case v of JStr t \<Rightarrow> strip t | _ \<Rightarrow> [])"
  using assms by (cases v) (auto simp: py_or_def strip_def split: if_splits)

lemma contributor_step_Inr:
  assumes "contributor_step py_str (pos, c) (rows, parts) = Inr (rows', parts')"
  shows "is_obj c"
    and "rows' = rows @ [expected_row pos c]"
    and "parts' = parts @ filter (\<lambda>p. p \<noteq> []) [display_fragment py_str c]"
proof -
  from assms obtain d first last where c: "c = JObj d"
    and first: "py_strip (py_or (dict_get d ''first_name'' JNull) (JStr [])) = Inr first"
    and last: "py_strip (py_or (dict_get d ''last_name'' JNull) (JStr [])) = Inr last"
    by (auto simp: bindE_Inr_iff get_method_Inr_iff)
  have names: "first = name_field c ''first_name''" "last = name_field c ''last_name''"
    using py_strip_or_Inr [OF first] py_strip_or_Inr [OF last]
    by (simp_all add: name_field_def as_object_def c)
  show "is_obj c" by (simp add: c is_obj_def)
  from assms show "rows' = rows @ [expected_row pos c]"
    by (simp add: c first last expected_row_def as_object_def
        names [unfolded c, symmetric] Let_def)
  from assms show "parts' = parts @ filter (\<lambda>p. p \<noteq> []) [display_fragment py_str c]"
    by (simp add: c first last display_fragment_def as_object_def
        names [unfolded c, symmetric] Let_def split: if_splits)
qed

lemma contributor_loop_Inr:
  assumes "for_each (contributor_step py_str) (enumerate n cs) (rows, parts)
             = Inr (rows', parts')"
  shows "list_all is_obj cs \<and>
         rows' = rows @ map (\<lambda>(i, c). expected_row i c) (enumerate n cs) \<and>
         parts' = parts @ filter (\<lambda>p. p \<noteq> []) (map (display_fragment py_str) cs)"
  using assms
proof (induction cs arbitrary: n rows parts)
  case Nil
  then show ?case by simp
next
  case (Cons c cs)
  from Cons.prems obtain rows1 parts1
    where step: "contributor_step py_str (n, c) (rows, parts) = Inr (rows1, parts1)"
      and rest: "for_each (contributor_step py_str) (enumerate (Suc n) cs) (rows1, parts1)
                   = Inr (rows', parts')"
    by (auto simp: bindE_Inr_iff)
  from contributor_step_Inr [OF step] Cons.IH [OF rest] show ?case
    by simp
qed

subsection \<open>The loop over the artifacts\<close>

lemma resource_step_frame:
  assumes "resource_step r fl = Inr fl'"
  shows "has_public fl' = has_public fl \<and> has_restricted fl' = has_restricted fl \<and>
         has_private fl' = has_private fl \<and> has_links' fl' = has_links' fl"
  using assms by (auto simp: resource_step_def bindE_Inr_iff split: if_splits)

lemma resource_loop_frame:
  assumes "for_each resource_step rs fl = Inr fl'"
  shows "has_public fl' = has_public fl \<and> has_restricted fl' = has_restricted fl \<and>
         has_private fl' = has_private fl \<and> has_links' fl' = has_links' fl"
  using assms
proof (induction rs arbitrary: fl)
  case Nil
  then show ?case by simp
next
  case (Cons r rs)
  from Cons.prems obtain fl1 where "resource_step r fl = Inr fl1"
    and "for_each resource_step rs fl1 = Inr fl'"
    by (auto simp: bindE_Inr_iff)
  with resource_step_frame Cons.IH show ?case by metis
qed

lemma artifact_step_Inr:
  assumes "artifact_step a fl = Inr fl'"
  shows "\<exists>lvl. access_level a = Inr lvl \<and>
           has_public fl' = (has_public fl \<or> lvl = ''public'') \<and>
           has_restricted fl' = (has_restricted fl \<or> lvl = ''restricted'') \<and>
           has_private fl' = (has_private fl \<or> lvl = ''private'')"
proof -
  from assms obtain lvl d files fl1 folders fl2 where lvl: "access_level a = Inr lvl"
    and files: "for_each resource_step files
        (if lvl = ''public'' then fl\<lparr>has_public := True\<rparr>
         else if lvl = ''restricted'' then fl\<lparr>has_restricted := True\<rparr>
         else if lvl = ''private'' then fl\<lparr>has_private := True\<rparr> else fl) = Inr fl1"
    and folders: "for_each resource_step folders fl1 = Inr fl2"
    and links: "(if truthy (dict_get d ''links'' JNull)
         then bindE (py_len (dict_get d ''links'' JNull)) (\<lambda>n.
                Inr (if n > 0 then fl2\<lparr>has_links' := True\<rparr> else fl2))
         else Inr fl2) = Inr fl'"
    unfolding artifact_step_def Let_def bindE_Inr_iff by blast
  from links have "has_public fl' = has_public fl2 \<and> has_restricted fl' = has_restricted fl2
      \<and> has_private fl' = has_private fl2"
    by (auto simp: bindE_Inr_iff split: if_splits)
  with resource_loop_frame [OF files] resource_loop_frame [OF folders] lvl show ?thesis
    by (auto split: if_splits)
qed

lemma access_level_is_obj: "access_level a = Inr lvl \<Longrightarrow> is_obj a"
  by (auto simp: access_level_def bindE_Inr_iff get_method_Inr_iff is_obj_def)

text \<open>
  Each flag after the loop is the flag before it or the match of some entry: the loop
  only ever sets a flag.
\<close>

lemma artifact_loop_Inr:
  assumes "for_each artifact_step arts fl = Inr fl'"
  shows "list_all is_obj arts \<and>
         has_public fl' =
           (has_public fl \<or> list_ex (\<lambda>a. access_level a = Inr ''public'') arts) \<and>
         has_restricted fl' =
           (has_restricted fl \<or> list_ex (\<lambda>a. access_level a = Inr ''restricted'') arts) \<and>
         has_private fl' =
           (has_private fl \<or> list_ex (\<lambda>a. access_level a = Inr ''private'') arts)"
  using assms
proof (induction arts arbitrary: fl)
  case Nil
  then show ?case by simp
next
  case (Cons a arts)
  from Cons.prems obtain fl1 where step: "artifact_step a fl = Inr fl1"
    and rest: "for_each artifact_step arts fl1 = Inr fl'"
    by (auto simp: bindE_Inr_iff)
  from artifact_step_Inr [OF step] obtain lvl where "access_level a = Inr lvl"
    "has_public fl1 = (has_public fl \<or> lvl = ''public'')"
    "has_restricted fl1 = (has_restricted fl \<or> lvl = ''restricted'')"
    "has_private fl1 = (has_private fl \<or> lvl = ''private'')"
    by blast
  with Cons.IH [OF rest] access_level_is_obj show ?case
    by auto
qed

subsection \<open>The mapper\<close>

lemma derive_fields_Inr_record:
  assumes "derive_fields_from_manifest py_str m = Inr (f, rows)"
  obtains md n entries parts k arts fl where
    "get_method (py_or (dict_get m ''RDMC Metadata'' (JObj [])) (JObj [])) = Inr md"
    "py_len (py_or (dict_get md ''Contributors'' (JArr [])) (JArr [])) = Inr n"
    "py_iter (py_or (dict_get md ''Contributors'' (JArr [])) (JArr [])) = Inr entries"
    "for_each (contributor_step py_str) (enumerate 0 entries) ([], []) = Inr (rows, parts)"
    "py_len (py_or (dict_get m ''Artifacts Details'' (JArr [])) (JArr [])) = Inr k"
    "py_iter (py_or (dict_get m ''Artifacts Details'' (JArr [])) (JArr [])) = Inr arts"
    "for_each artifact_step arts
       \<lparr>has_public = False, has_restricted = False, has_private = False,
        has_data = False, has_software = False, has_links' = False\<rparr> = Inr fl"
    "f = \<lparr>title = py_or (py_or (dict_get m ''RDMC Title'' JNull) (dict_get m ''title'' JNull))
                     (JStr ''(no title)''),
          rdmc_version = dict_get m ''RDMC Version'' JNull,
          manifest_schema_version = dict_get m ''Manifest-Schemaversion'' JNull,
          manifest_file_path = dict_get m ''Manifest File Path'' JNull,
          description = dict_get md ''Description'' JNull,
          subject = dict_get md ''Subject'' JNull,
          license = dict_get md ''License'' JNull,
          keywords_raw = dict_get md ''Keywords'' JNull,
          container_concept = dict_get md ''container-concept'' JNull,
          contributors_count = n,
          contributors_text = (if parts \<noteq> [] then Some (join ''; '' parts) else None),
          artifacts_raw = dict_get m ''Artifacts'' JNull,
          artifact_count = k,
          has_public_artifacts = has_public fl,
          has_restricted_artifacts = has_restricted fl,
          has_private_artifacts = has_private fl,
          has_data_resources = has_data fl,
          has_software_resources = has_software fl,
          has_links = has_links' fl\<rparr>"
  using assms unfolding derive_fields_from_manifest_def Let_def bindE_Inr_iff
  by (auto simp: bindE_Inr_iff split: prod.splits)

text \<open>What a run of the mapper that returns says about the contributors.\<close>

lemma derive_contributors:
  assumes "derive_fields_from_manifest py_str m = Inr (f, rows)"
  shows "list_all is_obj (contributor_entries m)"
    and "rows = map (\<lambda>(i, c). expected_row i c) (enumerate 0 (contributor_entries m))"
    and "contributors_count f = length (contributor_entries m)"
    and "contributors_text f =
           (let fragments = filter (\<lambda>p. p \<noteq> [])
                              (map (display_fragment py_str) (contributor_entries m))
            in if fragments = [] then None else Some (join ''; '' fragments))"
proof -
  from assms obtain md n entries parts k arts fl where
    md: "get_method (py_or (dict_get m ''RDMC Metadata'' (JObj [])) (JObj [])) = Inr md"
    and len: "py_len (py_or (dict_get md ''Contributors'' (JArr [])) (JArr [])) = Inr n"
    and iter: "py_iter (py_or (dict_get md ''Contributors'' (JArr [])) (JArr [])) = Inr entries"
    and loop: "for_each (contributor_step py_str) (enumerate 0 entries) ([], [])
                 = Inr (rows, parts)"
    and alen: "py_len (py_or (dict_get m ''Artifacts Details'' (JArr [])) (JArr [])) = Inr k"
    and aiter: "py_iter (py_or (dict_get m ''Artifacts Details'' (JArr [])) (JArr []))
                  = Inr arts"
    and aloop: "for_each artifact_step arts
       \<lparr>has_public = False, has_restricted = False, has_private = False,
        has_data = False, has_software = False, has_links' = False\<rparr> = Inr fl"
    and f: "f = \<lparr>title = py_or (py_or (dict_get m ''RDMC Title'' JNull)
                                     (dict_get m ''title'' JNull)) (JStr ''(no title)''),
          rdmc_version = dict_get m ''RDMC Version'' JNull,
          manifest_schema_version = dict_get m ''Manifest-Schemaversion'' JNull,
          manifest_file_path = dict_get m ''Manifest File Path'' JNull,
          description = dict_get md ''Description'' JNull,
          subject = dict_get md ''Subject'' JNull,
          license = dict_get md ''License'' JNull,
          keywords_raw = dict_get md ''Keywords'' JNull,
          container_concept = dict_get md ''container-concept'' JNull,
          contributors_count = n,
          contributors_text = (if parts \<noteq> [] then Some (join ''; '' parts) else None),
          artifacts_raw = dict_get m ''Artifacts'' JNull,
          artifact_count = k,
          has_public_artifacts = has_public fl,
          has_restricted_artifacts = has_restricted fl,
          has_private_artifacts = has_private fl,
          has_data_resources = has_data fl,
          has_software_resources = has_software fl,
          has_links = has_links' fl\<rparr>"
    by (rule derive_fields_Inr_record)
  have count: "contributors_count f = n"
    and joined: "contributors_text f = (if parts \<noteq> [] then Some (join ''; '' parts) else None)"
    by (simp_all add: f)
  from contributor_loop_Inr [OF loop] have objs: "list_all is_obj entries"
    and rows: "rows = map (\<lambda>(i, c). expected_row i c) (enumerate 0 entries)"
    and parts: "parts = filter (\<lambda>p. p \<noteq> []) (map (display_fragment py_str) entries)"
    by simp_all
  have entries: "entries = contributor_entries m"
    using loop_entries(1) [OF len iter objs] metadata_object [OF md]
    by (simp add: contributor_entries_def)
  from objs entries show "list_all is_obj (contributor_entries m)" by simp
  from rows entries
  show "rows = map (\<lambda>(i, c). expected_row i c) (enumerate 0 (contributor_entries m))"
    by simp
  from loop_entries(2) [OF len iter objs] entries count
  show "contributors_count f = length (contributor_entries m)" by simp
  from joined parts entries show "contributors_text f =
           (let fragments = filter (\<lambda>p. p \<noteq> [])
                              (map (display_fragment py_str) (contributor_entries m))
            in if fragments = [] then None else Some (join ''; '' fragments))"
    by (simp add: Let_def)
qed

text \<open>What a run of the mapper that returns says about the artifacts.\<close>

lemma derive_artifacts:
  assumes "derive_fields_from_manifest py_str m = Inr (f, rows)"
  shows "list_all is_obj (artifact_entries m)"
    and "artifact_count f = length (artifact_entries m)"
    and "artifacts_raw f = dict_get m ''Artifacts'' JNull"
    and "has_public_artifacts f
           = list_ex (\<lambda>a. access_level a = Inr ''public'') (artifact_entries m)"
    and "has_restricted_artifacts f
           = list_ex (\<lambda>a. access_level a = Inr ''restricted'') (artifact_entries m)"
    and "has_private_artifacts f
           = list_ex (\<lambda>a. access_level a = Inr ''private'') (artifact_entries m)"
proof -
  from assms obtain md n entries parts k arts fl where
    md: "get_method (py_or (dict_get m ''RDMC Metadata'' (JObj [])) (JObj [])) = Inr md"
    and len: "py_len (py_or (dict_get md ''Contributors'' (JArr [])) (JArr [])) = Inr n"
    and iter: "py_iter (py_or (dict_get md ''Contributors'' (JArr [])) (JArr [])) = Inr entries"
    and loop: "for_each (contributor_step py_str) (enumerate 0 entries) ([], [])
                 = Inr (rows, parts)"
    and alen: "py_len (py_or (dict_get m ''Artifacts Details'' (JArr [])) (JArr [])) = Inr k"
    and aiter: "py_iter (py_or (dict_get m ''Artifacts Details'' (JArr [])) (JArr []))
                  = Inr arts"
    and aloop: "for_each artifact_step arts
       \<lparr>has_public = False, has_restricted = False, has_private = False,
        has_data = False, has_software = False, has_links' = False\<rparr> = Inr fl"
    and f: "f = \<lparr>title = py_or (py_or (dict_get m ''RDMC Title'' JNull)
                                     (dict_get m ''title'' JNull)) (JStr ''(no title)''),
          rdmc_version = dict_get m ''RDMC Version'' JNull,
          manifest_schema_version = dict_get m ''Manifest-Schemaversion'' JNull,
          manifest_file_path = dict_get m ''Manifest File Path'' JNull,
          description = dict_get md ''Description'' JNull,
          subject = dict_get md ''Subject'' JNull,
          license = dict_get md ''License'' JNull,
          keywords_raw = dict_get md ''Keywords'' JNull,
          container_concept = dict_get md ''container-concept'' JNull,
          contributors_count = n,
          contributors_text = (if parts \<noteq> [] then Some (join ''; '' parts) else None),
          artifacts_raw = dict_get m ''Artifacts'' JNull,
          artifact_count = k,
          has_public_artifacts = has_public fl,
          has_restricted_artifacts = has_restricted fl,
          has_private_artifacts = has_private fl,
          has_data_resources = has_data fl,
          has_software_resources = has_software fl,
          has_links = has_links' fl\<rparr>"
    by (rule derive_fields_Inr_record)
  have count: "artifact_count f = k"
    and raw: "artifacts_raw f = dict_get m ''Artifacts'' JNull"
    and flags: "has_public_artifacts f = has_public fl"
      "has_restricted_artifacts f = has_restricted fl"
      "has_private_artifacts f = has_private fl"
    by (simp_all add: f)
  note facts = artifact_loop_Inr [OF aloop]
  from facts have objs: "list_all is_obj arts" by simp
  have arts: "arts = artifact_entries m"
    using loop_entries(1) [OF alen aiter objs] by (simp add: artifact_entries_def)
  from objs arts show "list_all is_obj (artifact_entries m)" by simp
  from loop_entries(2) [OF alen aiter objs] arts count
  show "artifact_count f = length (artifact_entries m)" by simp
  from raw show "artifacts_raw f = dict_get m ''Artifacts'' JNull" .
  from facts flags arts show "has_public_artifacts f
      = list_ex (\<lambda>a. access_level a = Inr ''public'') (artifact_entries m)" by simp
  from facts flags arts show "has_restricted_artifacts f
      = list_ex (\<lambda>a. access_level a = Inr ''restricted'') (artifact_entries m)" by simp
  from facts flags arts show "has_private_artifacts f
      = list_ex (\<lambda>a. access_level a = Inr ''private'') (artifact_entries m)" by simp
qed

lemma derive_title:
  assumes "derive_fields_from_manifest py_str m = Inr (f, rows)"
  shows "title f = expected_title m"
  using assms
  by (elim derive_fields_Inr_record) (simp add: expected_title_def py_or_def)

subsection \<open>Evaluating the examples\<close>

lemmas eval_defs = derive_fields_from_manifest_def dict_get_def py_or_def strip_def is_space_def
  lower_def lower_char_def access_level_def artifact_step_def resource_step_def Let_def
  public_and_private_def two_contributors_def ada_def bob_def no_str_def char_of_def
  bit_Suc_0_iff

lemma public_and_private_run:
  "derive_fields_from_manifest no_str public_and_private =
     Inr (\<lparr>title = JStr ''(no title)'', rdmc_version = JNull,
           manifest_schema_version = JNull, manifest_file_path = JNull,
           description = JNull, subject = JNull, license = JNull,
           keywords_raw = JNull, container_concept = JNull,
           contributors_count = 0, contributors_text = None,
           artifacts_raw = JNull, artifact_count = 2,
           has_public_artifacts = True, has_restricted_artifacts = False,
           has_private_artifacts = True, has_data_resources = False,
           has_software_resources = False, has_links = False\<rparr>, [])"
  by (simp add: eval_defs)

lemma two_contributors_run:
  "derive_fields_from_manifest no_str two_contributors =
     Inr (\<lparr>title = JStr ''(no title)'', rdmc_version = JNull,
           manifest_schema_version = JNull, manifest_file_path = JNull,
           description = JNull, subject = JNull, license = JNull,
           keywords_raw = JNull, container_concept = JNull,
           contributors_count = 3,
           contributors_text = Some ''Ada Lovelace (PI), ORCID: 0000-0001, Dept X; Bob'',
           artifacts_raw = JNull, artifact_count = 0,
           has_public_artifacts = False, has_restricted_artifacts = False,
           has_private_artifacts = False, has_data_resources = False,
           has_software_resources = False, has_links = False\<rparr>,
          [\<lparr>position = 0, first_name = ''Ada'', last_name = ''Lovelace'', email = JNull,
            affiliation = JStr ''Dept X'', orcid = JStr ''0000-0001'', role = JStr ''PI''\<rparr>,
           \<lparr>position = 1, first_name = [], last_name = [], email = JNull,
            affiliation = JNull, orcid = JNull, role = JNull\<rparr>,
           \<lparr>position = 2, first_name = ''Bob'', last_name = [],
            email = JStr ''bob@example.org'', affiliation = JNull, orcid = JNull,
            role = JNull\<rparr>])"
  by (simp add: eval_defs)

section \<open>The claims about the mapper\<close>

text \<open>
  C5. When the mapper returns, each of the three access flags is true exactly when some
  entry of the array at \<open>"Artifacts Details"\<close> has the lower-cased access level
  \<open>public\<close>, \<open>restricted\<close> or \<open>private\<close>: a flag set by one entry stays set whatever the
  later entries hold, an entry with another or no access level sets none, and several
  flags can be true at once.
\<close>

theorem artifact_flags_accumulate:
  assumes "derive_fields_from_manifest py_str m = Inr (f, rows)"
  shows "has_public_artifacts f
           = (\<exists>a \<in> set (artifact_entries m). access_level a = Inr ''public'') \<and>
         has_restricted_artifacts f
           = (\<exists>a \<in> set (artifact_entries m). access_level a = Inr ''restricted'') \<and>
         has_private_artifacts f
           = (\<exists>a \<in> set (artifact_entries m). access_level a = Inr ''private'')"
  using derive_artifacts(4-6) [OF assms] by (simp add: list_ex_iff)

theorem artifact_flags_accumulate_witness:
  "\<exists>f rows. derive_fields_from_manifest no_str public_and_private = Inr (f, rows) \<and>
     has_public_artifacts f \<and> has_private_artifacts f \<and> \<not> has_restricted_artifacts f \<and>
     (\<exists>a \<in> set (artifact_entries public_and_private). access_level a = Inr ''public'') \<and>
     (\<exists>a \<in> set (artifact_entries public_and_private). access_level a = Inr ''private'')"
  using artifact_flags_accumulate [OF public_and_private_run] public_and_private_run
  by simp

text \<open>
  C8. When the mapper returns, \<open>artifact_count\<close> is the length of the array at
  \<open>"Artifacts Details"\<close> (empty when the key is missing) and \<open>artifacts_raw\<close> is whatever
  value the key \<open>"Artifacts"\<close> holds, whatever its shape, and \<open>None\<close> when the key is
  missing: a manifest with entries under \<open>"Artifacts Details"\<close> and no key
  \<open>"Artifacts"\<close> has a positive count and no raw artifacts.
\<close>

theorem artifact_count_and_raw:
  assumes "derive_fields_from_manifest py_str m = Inr (f, rows)"
  shows "artifact_count f = length (artifact_entries m) \<and>
         artifacts_raw f = dict_get m ''Artifacts'' JNull \<and>
         (artifact_entries m \<noteq> [] \<and> map_of m ''Artifacts'' = None
            \<longrightarrow> 0 < artifact_count f \<and> artifacts_raw f = JNull)"
  using derive_artifacts(2,3) [OF assms] by (simp add: dict_get_def)

theorem artifact_count_and_raw_witness:
  "\<exists>f rows. derive_fields_from_manifest no_str public_and_private = Inr (f, rows) \<and>
     map_of public_and_private ''Artifacts'' = None \<and>
     length (artifact_entries public_and_private) = 2 \<and>
     artifact_count f = 2 \<and> artifacts_raw f = JNull"
proof -
  have "map_of public_and_private ''Artifacts'' = None"
    by (simp add: public_and_private_def)
  with artifact_count_and_raw [OF public_and_private_run] public_and_private_run
  show ?thesis by simp
qed

end
